theory Spec2Isabelle
  imports Main "HOL-Library.Word"
begin

unbundle bit_operations_syntax

section \<open>The table layer of smtpd: static and db(3) backends\<close>

text \<open>
  The development embeds \<^verbatim>\<open>table_static.c\<close> (the static backend) and
  \<^verbatim>\<open>table_db.c\<close> (the db(3) backend). A C string is a \<open>string\<close>: the bytes
  before the terminating NUL. Return codes are \<open>int\<close>: \<open>1\<close> found, \<open>0\<close> not found,
  \<open>-1\<close> error, as the C functions return them.
\<close>

subsection \<open>C library functions used by the backends\<close>

text \<open>\<^verbatim>\<open>isspace\<close> in the C locale: space, and the controls \<^verbatim>\<open>\t \n \v \f \r\<close>.\<close>

definition isspace :: "char \<Rightarrow> bool" where
  "isspace c = (c = CHR '' '' \<or> c = CHR 0x09 \<or> c = CHR 0x0A \<or> c = CHR 0x0B
                \<or> c = CHR 0x0C \<or> c = CHR 0x0D)"

text \<open>\<^verbatim>\<open>strchr(s, c)\<close>: the offset of the first \<open>c\<close> in \<open>s\<close>, \<open>None\<close> for NULL.\<close>

fun strchr :: "string \<Rightarrow> char \<Rightarrow> nat option" where
  "strchr [] c = None"
| "strchr (x # xs) c = (if x = c then Some 0 else map_option Suc (strchr xs c))"

text \<open>
  \<^verbatim>\<open>strlcpy(dst, src, size)\<close>: the new content of \<open>dst\<close> (at most \<open>size - 1\<close> bytes
  of \<open>src\<close>; nothing is written when \<open>size\<close> is 0) and the return value
  \<^verbatim>\<open>strlen(src)\<close>.
\<close>

definition strlcpy :: "string \<Rightarrow> string \<Rightarrow> nat \<Rightarrow> string \<times> nat" where
  "strlcpy dst src dsize = (if dsize = 0 then dst else take (dsize - 1) src, length src)"

text \<open>
  \<^verbatim>\<open>strsep(&line, delim)\<close> on a non-NULL \<open>line\<close>: the token up to the first
  delimiter and the new value of \<open>line\<close> (NULL when there was no delimiter).
\<close>

definition strsep :: "string \<Rightarrow> char \<Rightarrow> string \<times> string option" where
  "strsep s d = (case strchr s d of
                   None \<Rightarrow> (s, None)
                 | Some i \<Rightarrow> (take i s, Some (drop (Suc i) s)))"

text \<open>The bytes of a buffer read as a C string: up to the first NUL.\<close>

definition cstr :: "string \<Rightarrow> string" where
  "cstr bytes = takeWhile (\<lambda>c. c \<noteq> CHR 0x00) bytes"

subsection \<open>Data model\<close>

datatype table_service = K_NONE | K_ALIAS | K_VIRTUAL | K_CREDENTIALS | K_NETADDR

datatype backend = Backend_static | Backend_db

record mapel =
  me_key :: string
  me_val :: string

text \<open>
  \<^verbatim>\<open>struct table\<close>. The type of \<open>t_id\<close> is a parameter (an unsigned machine word in
  every use below); \<open>t_contents\<close> is the tail queue of entries, in insertion order.
\<close>

record 'i table =
  t_name :: string
  t_id :: 'i
  t_src :: string
  t_config :: string
  t_backend :: backend
  t_contents :: "mapel list"

record table_credentials =
  username :: string
  password :: string

datatype 'ex table_alias = Table_alias (alias_expand: 'ex) (alias_nbnodes: nat)

datatype 'ex table_virtual = Table_virtual (virtual_expand: 'ex) (virtual_nbnodes: nat)

datatype 'na table_netaddr = Table_netaddr (netaddr: 'na)

text \<open>What a decoder stores through \<^verbatim>\<open>void **retp\<close>.\<close>

datatype ('ex, 'na) table_record =
    R_credentials table_credentials
  | R_alias "'ex table_alias"
  | R_virtual "'ex table_virtual"
  | R_netaddr "'na table_netaddr"

text \<open>
  The effect of a call on \<^verbatim>\<open>*retp\<close>: left as the caller had it, or assigned
  (\<open>Written None\<close> is \<^verbatim>\<open>*retp = NULL\<close>).
\<close>

datatype 'r outp = Unwritten | Written "'r option"

text \<open>
  The constants and functions of smtpd that the two backends use and that are declared
  elsewhere (\<^verbatim>\<open>smtpd.h\<close>, \<^verbatim>\<open>expand.c\<close>, \<^verbatim>\<open>aliases.c\<close>, \<^verbatim>\<open>util.c\<close>, libc) are
  parameters: the line size, the capacities of the two credential fields, the
  expansion-node parser (\<open>None\<close> for return value 0), the expansion container with its
  zeroed state and its insertion, the address parser, and the strings on which
  \<^verbatim>\<open>strdup\<close> finds no memory.
\<close>

record ('xn, 'ex, 'na) env =
  MAX_LINE_SIZE :: nat
  sizeof_username :: nat
  sizeof_password :: nat
  alias_parse :: "string \<Rightarrow> 'xn option"
  expand_zero :: 'ex
  expand_insert :: "'ex \<Rightarrow> 'xn \<Rightarrow> 'ex"
  text_to_netaddr :: "string \<Rightarrow> 'na option"
  strdup_null :: "string \<Rightarrow> bool"

text \<open>\<^verbatim>\<open>strdup(s)\<close>: a copy of \<open>s\<close>, or NULL.\<close>

definition strdup :: "('xn, 'ex, 'na) env \<Rightarrow> string \<Rightarrow> string option" where
  "strdup E s = (if strdup_null E s then None else Some s)"

type_synonym ('ex, 'na) decoded = "int \<times> ('ex, 'na) table_record outp"

subsection \<open>Record decoders of the static backend\<close>

definition table_static_credentials ::
  "('xn, 'ex, 'na) env \<Rightarrow> string \<Rightarrow> string \<Rightarrow> nat \<Rightarrow> ('ex, 'na) decoded" where
  "table_static_credentials E key line len =
     (if len < 3 then (- 1, Unwritten)
      else if len \<ge> MAX_LINE_SIZE E then (- 1, Unwritten)
      else case strchr line CHR '':'' of
          None \<Rightarrow> (- 1, Unwritten)
        | Some p \<Rightarrow>
            if p = 0 \<or> p = len - 1 then (- 1, Unwritten)
            else
              (case strlcpy [] (take p line) (sizeof_username E) of (user, n) \<Rightarrow>
                 if n \<ge> sizeof_username E then (- 1, Written None)
                 else
                   (case strlcpy [] (drop (Suc p) line) (sizeof_password E) of (pass, n') \<Rightarrow>
                      if n' \<ge> sizeof_password E then (- 1, Written None)
                      else (1, Written (Some (R_credentials
                              \<lparr>username = user, password = pass\<rparr>))))))"

text \<open>
  The inner loop \<^verbatim>\<open>while (subrcpt < endp && isspace(*endp)) *endp-- = '\0'\<close>, with
  \<open>endp\<close> on the last byte of \<open>subrcpt\<close>.
\<close>

function strip_trailing :: "string \<Rightarrow> string" where
  "strip_trailing s =
     (if 1 < length s \<and> isspace (last s) then strip_trailing (butlast s) else s)"
  by pat_completeness auto
termination
  by (relation "measure length") auto

text \<open>
  The \<^verbatim>\<open>while ((subrcpt = strsep(&line, ",")) != NULL)\<close> loop of
  \<^verbatim>\<open>table_static_alias\<close>; \<open>None\<close> is \<^verbatim>\<open>goto error\<close>, otherwise the expansion
  and \<open>nbnodes\<close> when the loop is left.
\<close>

function static_alias_loop ::
  "('xn, 'ex, 'na) env \<Rightarrow> string option \<Rightarrow> 'ex \<Rightarrow> nat \<Rightarrow> ('ex \<times> nat) option" where
  "static_alias_loop E None ex n = Some (ex, n)"
| "static_alias_loop E (Some s) ex n =
     (if dropWhile isspace (fst (strsep s CHR '','')) = [] then None
      else case alias_parse E (strip_trailing (dropWhile isspace (fst (strsep s CHR '','')))) of
          None \<Rightarrow> None
        | Some xn \<Rightarrow>
            static_alias_loop E (snd (strsep s CHR '','')) (expand_insert E ex xn) (Suc n))"
  by pat_completeness auto

lemma strchr_bound: "strchr s c = Some i \<Longrightarrow> i < length s"
  by (induction s arbitrary: i) (auto split: if_splits)

lemma strsep_shorter: "snd (strsep s d) = Some r \<Longrightarrow> length r < length s"
  by (auto simp: strsep_def split: option.splits dest: strchr_bound)

termination static_alias_loop
  by (relation "measure (\<lambda>(E, l, ex, n). case l of None \<Rightarrow> 0 | Some s \<Rightarrow> Suc (length s))")
     (auto split: option.splits dest: strsep_shorter)

definition table_static_alias ::
  "('xn, 'ex, 'na) env \<Rightarrow> string \<Rightarrow> string \<Rightarrow> nat \<Rightarrow> ('ex, 'na) decoded" where
  "table_static_alias E key line len =
     (case static_alias_loop E (Some line) (expand_zero E) 0 of
        None \<Rightarrow> (- 1, Written None)
      | Some (ex, n) \<Rightarrow> (1, Written (Some (R_alias (Table_alias ex n)))))"

function static_virtual_loop ::
  "('xn, 'ex, 'na) env \<Rightarrow> string option \<Rightarrow> 'ex \<Rightarrow> nat \<Rightarrow> ('ex \<times> nat) option" where
  "static_virtual_loop E None ex n = Some (ex, n)"
| "static_virtual_loop E (Some s) ex n =
     (if dropWhile isspace (fst (strsep s CHR '','')) = [] then None
      else case alias_parse E (strip_trailing (dropWhile isspace (fst (strsep s CHR '','')))) of
          None \<Rightarrow> None
        | Some xn \<Rightarrow>
            static_virtual_loop E (snd (strsep s CHR '','')) (expand_insert E ex xn) (Suc n))"
  by pat_completeness auto
termination
  by (relation "measure (\<lambda>(E, l, ex, n). case l of None \<Rightarrow> 0 | Some s \<Rightarrow> Suc (length s))")
     (auto split: option.splits dest: strsep_shorter)

definition table_static_virtual ::
  "('xn, 'ex, 'na) env \<Rightarrow> string \<Rightarrow> string \<Rightarrow> nat \<Rightarrow> ('ex, 'na) decoded" where
  "table_static_virtual E key line len =
     (if strchr key CHR ''@'' = None then (1, Written None)
      else case static_virtual_loop E (Some line) (expand_zero E) 0 of
          None \<Rightarrow> (0, Written None)
        | Some (ex, n) \<Rightarrow> (1, Written (Some (R_virtual (Table_virtual ex n)))))"

definition table_static_netaddr ::
  "('xn, 'ex, 'na) env \<Rightarrow> string \<Rightarrow> string \<Rightarrow> nat \<Rightarrow> ('ex, 'na) decoded" where
  "table_static_netaddr E key line len =
     (case text_to_netaddr E line of
        None \<Rightarrow> (0, Written None)
      | Some a \<Rightarrow> (1, Written (Some (R_netaddr (Table_netaddr a)))))"

subsection \<open>Operations of the static backend\<close>

definition table_static_open :: "'i table \<Rightarrow> 'i table" where
  "table_static_open table = table"

text \<open>
  The \<^verbatim>\<open>TAILQ_FOREACH\<close> of \<^verbatim>\<open>table_static_lookup\<close>: the entry on which the loop
  breaks, \<open>None\<close> when it runs to the end (\<open>me\<close> is then NULL).
\<close>

fun static_lookup_scan :: "mapel list \<Rightarrow> string \<Rightarrow> mapel option" where
  "static_lookup_scan [] key = None"
| "static_lookup_scan (me # rest) key =
     (if key = me_key me then Some me else static_lookup_scan rest key)"

text \<open>The flag \<open>retp\<close> is \<^verbatim>\<open>retp != NULL\<close>.\<close>

definition table_static_lookup ::
  "('xn, 'ex, 'na) env \<Rightarrow> 'i table \<Rightarrow> string \<Rightarrow> table_service \<Rightarrow> bool \<Rightarrow> ('ex, 'na) decoded"
  where
  "table_static_lookup E m key kind retp =
     (if \<not> retp
      then (if static_lookup_scan (t_contents m) key \<noteq> None then 1 else 0, Unwritten)
      else
        (case static_lookup_scan (t_contents m) key of
           None \<Rightarrow> (0, Written None)
         | Some me \<Rightarrow>
             (case strdup E (me_val me) of
                None \<Rightarrow> (- 1, Unwritten)
              | Some line \<Rightarrow>
                  (case kind of
                     K_ALIAS \<Rightarrow> table_static_alias E key line (length line)
                   | K_CREDENTIALS \<Rightarrow> table_static_credentials E key line (length line)
                   | K_VIRTUAL \<Rightarrow> table_static_virtual E key line (length line)
                   | K_NETADDR \<Rightarrow> table_static_netaddr E key line (length line)
                   | K_NONE \<Rightarrow> (- 1, Unwritten)))))"



subsection \<open>The db(3) backend\<close>

text \<open>
  A call either returns or ends the process (\<^verbatim>\<open>errx\<close>) with an exit status.
\<close>

datatype 'a outcome = Exit int | Return 'a

text \<open>
  What one call of \<^verbatim>\<open>db->seq\<close> yields: the bytes of the key (\<^verbatim>\<open>dbk.size\<close> of them),
  the byte that follows them in the store's buffer, and the bytes of the data.
\<close>

record seq_rec =
  dbk :: string
  dbk_next :: char
  dbd :: string

text \<open>
  The open \<^verbatim>\<open>DB\<close> handle: \<open>db_get\<close> is \<^verbatim>\<open>db->get\<close> on the bytes of a key (its
  return value and the data found), \<open>db_seq\<close> the records that \<^verbatim>\<open>db->seq\<close> yields
  from \<^verbatim>\<open>R_FIRST\<close> on, until it first returns non-zero. Keys and data are the bytes
  stored, terminating NUL included where the store has one.
\<close>

record db =
  db_get :: "string \<Rightarrow> int \<times> string"
  db_seq :: "seq_rec list"

definition table_db_config :: "'i table \<Rightarrow> string option \<Rightarrow> int" where
  "table_db_config table config = 1"

definition table_db_update :: "'i table \<Rightarrow> string option \<Rightarrow> int" where
  "table_db_update table config = 1"

text \<open>\<^verbatim>\<open>table_db_get_entry\<close>: NULL, or the copy of the data with \<^verbatim>\<open>*len\<close>.\<close>

definition table_db_get_entry ::
  "('xn, 'ex, 'na) env \<Rightarrow> db \<Rightarrow> string \<Rightarrow> (string \<times> nat) option outcome" where
  "table_db_get_entry E hdl key =
     (case strlcpy [] key (MAX_LINE_SIZE E) of (pkey, n) \<Rightarrow>
        if n \<ge> MAX_LINE_SIZE E then Exit 1
        else
          (case db_get hdl (pkey @ [CHR 0x00]) of (ret, data) \<Rightarrow>
             if ret \<noteq> 0 then Return None
             else Return (Some (data, length data))))"

definition table_db_credentials ::
  "('xn, 'ex, 'na) env \<Rightarrow> string \<Rightarrow> string \<Rightarrow> nat \<Rightarrow> ('ex, 'na) decoded" where
  "table_db_credentials E key line len =
     (if len < 3 then (- 1, Unwritten)
      else if len \<ge> MAX_LINE_SIZE E then (- 1, Unwritten)
      else case strchr line CHR '':'' of
          None \<Rightarrow> (- 1, Unwritten)
        | Some p \<Rightarrow>
            if p = 0 \<or> p = len - 1 then (- 1, Unwritten)
            else
              (case strlcpy [] (take p line) (sizeof_username E) of (user, n) \<Rightarrow>
                 if n \<ge> sizeof_username E then (- 1, Written None)
                 else
                   (case strlcpy [] (drop (Suc p) line) (sizeof_password E) of (pass, n') \<Rightarrow>
                      if n' \<ge> sizeof_password E then (- 1, Written None)
                      else (1, Written (Some (R_credentials
                              \<lparr>username = user, password = pass\<rparr>))))))"

function db_alias_loop ::
  "('xn, 'ex, 'na) env \<Rightarrow> string option \<Rightarrow> 'ex \<Rightarrow> nat \<Rightarrow> ('ex \<times> nat) option" where
  "db_alias_loop E None ex n = Some (ex, n)"
| "db_alias_loop E (Some s) ex n =
     (if dropWhile isspace (fst (strsep s CHR '','')) = [] then None
      else case alias_parse E (strip_trailing (dropWhile isspace (fst (strsep s CHR '','')))) of
          None \<Rightarrow> None
        | Some xn \<Rightarrow>
            db_alias_loop E (snd (strsep s CHR '','')) (expand_insert E ex xn) (Suc n))"
  by pat_completeness auto
termination
  by (relation "measure (\<lambda>(E, l, ex, n). case l of None \<Rightarrow> 0 | Some s \<Rightarrow> Suc (length s))")
     (auto split: option.splits dest: strsep_shorter)

definition table_db_alias ::
  "('xn, 'ex, 'na) env \<Rightarrow> string \<Rightarrow> string \<Rightarrow> nat \<Rightarrow> ('ex, 'na) decoded" where
  "table_db_alias E key line len =
     (case db_alias_loop E (Some line) (expand_zero E) 0 of
        None \<Rightarrow> (- 1, Written None)
      | Some (ex, n) \<Rightarrow> (1, Written (Some (R_alias (Table_alias ex n)))))"

function db_virtual_loop ::
  "('xn, 'ex, 'na) env \<Rightarrow> string option \<Rightarrow> 'ex \<Rightarrow> nat \<Rightarrow> ('ex \<times> nat) option" where
  "db_virtual_loop E None ex n = Some (ex, n)"
| "db_virtual_loop E (Some s) ex n =
     (if dropWhile isspace (fst (strsep s CHR '','')) = [] then None
      else case alias_parse E (strip_trailing (dropWhile isspace (fst (strsep s CHR '','')))) of
          None \<Rightarrow> None
        | Some xn \<Rightarrow>
            db_virtual_loop E (snd (strsep s CHR '','')) (expand_insert E ex xn) (Suc n))"
  by pat_completeness auto
termination
  by (relation "measure (\<lambda>(E, l, ex, n). case l of None \<Rightarrow> 0 | Some s \<Rightarrow> Suc (length s))")
     (auto split: option.splits dest: strsep_shorter)

definition table_db_virtual ::
  "('xn, 'ex, 'na) env \<Rightarrow> string \<Rightarrow> string \<Rightarrow> nat \<Rightarrow> ('ex, 'na) decoded" where
  "table_db_virtual E key line len =
     (if strchr key CHR ''@'' = None then (1, Written None)
      else case db_virtual_loop E (Some line) (expand_zero E) 0 of
          None \<Rightarrow> (0, Written None)
        | Some (ex, n) \<Rightarrow> (1, Written (Some (R_virtual (Table_virtual ex n)))))"

definition table_db_netaddr ::
  "('xn, 'ex, 'na) env \<Rightarrow> string \<Rightarrow> string \<Rightarrow> nat \<Rightarrow> ('ex, 'na) decoded" where
  "table_db_netaddr E key line len =
     (case text_to_netaddr E line of
        None \<Rightarrow> (0, Written None)
      | Some a \<Rightarrow> (1, Written (Some (R_netaddr (Table_netaddr a)))))"

text \<open>
  \<^verbatim>\<open>table_db_lookup\<close>. The decoders get the copy of the data and its size as \<open>len\<close>,
  and read the copy as a C string: \<open>cstr line\<close> is what they read in data that holds
  a NUL, as the keys that \<^verbatim>\<open>table_db_get_entry\<close> looks up do.
\<close>

definition table_db_lookup ::
  "('xn, 'ex, 'na) env \<Rightarrow> db \<Rightarrow> string \<Rightarrow> table_service \<Rightarrow> ('ex, 'na) decoded outcome" where
  "table_db_lookup E hdl key kind =
     (case table_db_get_entry E hdl key of
        Exit status \<Rightarrow> Exit status
      | Return None \<Rightarrow> Return (0, Unwritten)
      | Return (Some (line, len)) \<Rightarrow>
          Return (case kind of
                    K_ALIAS \<Rightarrow> table_db_alias E key (cstr line) len
                  | K_CREDENTIALS \<Rightarrow> table_db_credentials E key (cstr line) len
                  | K_VIRTUAL \<Rightarrow> table_db_virtual E key (cstr line) len
                  | K_NETADDR \<Rightarrow> table_db_netaddr E key (cstr line) len
                  | K_NONE \<Rightarrow> (0, Unwritten)))"

text \<open>
  \<^verbatim>\<open>buf = xmemdup(dbk.data, dbk.size + 1)\<close>: the copy of the key and of the byte after
  it. No terminator is added.
\<close>

definition compare_buf :: "seq_rec \<Rightarrow> string" where
  "compare_buf r = dbk r @ [dbk_next r]"



subsection \<open>Configuring and updating a static table\<close>

text \<open>
  Tables live in allocated memory and are reached through pointers: \<open>mem\<close> is the
  content at each address, \<open>live\<close> the addresses of the tables that are allocated.
\<close>

type_synonym addr = nat

record 'i store =
  mem :: "addr \<Rightarrow> 'i table"
  live :: "addr set"

text \<open>
  The parts of \<^verbatim>\<open>table.c\<close> and \<^verbatim>\<open>smtpd.h\<close> that the update path goes through are
  parameters: the backend that a source designator names, the configuration parser
  (its return value and the table as it leaves it), the capacity of \<open>t_name\<close>, and
  what the factory picks for a new table (its address, its id and, when it is given
  no name, its name).
\<close>

record 'i sys =
  table_backend_lookup :: "string \<Rightarrow> backend"
  table_config_parser :: "'i table \<Rightarrow> string \<Rightarrow> int \<times> 'i table"
  sizeof_t_name :: nat
  fresh_addr :: addr
  fresh_id :: 'i
  fresh_name :: string

text \<open>
  Modelled from the spec: \<^verbatim>\<open>table_create\<close> is defined in \<^verbatim>\<open>table.c\<close>, which is not
  among the sources. It is the factory of the data model ("created by a factory given
  a source designator and configuration string"): a new table, bound to the backend of
  the designator, with an identity of its own and no entries.
\<close>

definition table_create ::
  "'i sys \<Rightarrow> 'i store \<Rightarrow> string \<Rightarrow> string option \<Rightarrow> string \<Rightarrow> addr \<times> 'i store" where
  "table_create S st src name config =
     (fresh_addr S,
      st\<lparr>mem := (mem st)(fresh_addr S :=
              \<lparr>t_name = (case name of None \<Rightarrow> fresh_name S | Some n \<Rightarrow> n),
               t_id = fresh_id S, t_src = src, t_config = config,
               t_backend = table_backend_lookup S src, t_contents = []\<rparr>),
         live := insert (fresh_addr S) (live st)\<rparr>)"

text \<open>
  Modelled from the spec: \<^verbatim>\<open>table_destroy\<close> is defined in \<^verbatim>\<open>table.c\<close>, which is
  not among the sources. A table is "destroyed explicitly by the owner": the table at
  the address is released with its entries, and the address is no longer allocated.
\<close>

definition table_destroy :: "'i store \<Rightarrow> addr \<Rightarrow> 'i store" where
  "table_destroy st a = st\<lparr>live := live st - {a}\<rparr>"

definition table_static_config :: "'i sys \<Rightarrow> 'i table \<Rightarrow> string option \<Rightarrow> int \<times> 'i table" where
  "table_static_config S table config =
     (case config of
        None \<Rightarrow> (1, table)
      | Some c \<Rightarrow> table_config_parser S table c)"

text \<open>The call \<^verbatim>\<open>t->t_backend->config(t, config)\<close> through the backend's table.\<close>

definition backend_config ::
  "'i sys \<Rightarrow> backend \<Rightarrow> 'i table \<Rightarrow> string option \<Rightarrow> int \<times> 'i table" where
  "backend_config S b t config =
     (case b of
        Backend_static \<Rightarrow> table_static_config S t config
      | Backend_db \<Rightarrow> (table_db_config t config, t))"

text \<open>An assignment through a pointer to a table.\<close>

definition store_upd :: "'i store \<Rightarrow> addr \<Rightarrow> ('i table \<Rightarrow> 'i table) \<Rightarrow> 'i store" where
  "store_upd st a f = st\<lparr>mem := (mem st)(a := f (mem st a))\<rparr>"

text \<open>
  \<^verbatim>\<open>table_static_update\<close>, statement by statement; \<open>table\<close> and \<open>t\<close> are the two
  pointers, \<open>name\<close> the local buffer. The return value and the memory it leaves.
\<close>

definition table_static_update ::
  "('xn, 'ex, 'na) env \<Rightarrow> ('w::len) word sys \<Rightarrow> 'w word store \<Rightarrow> addr \<Rightarrow> string option
     \<Rightarrow> int \<times> 'w word store" where
  "table_static_update E S st table config =
     (case config of
        None \<Rightarrow> (1, st)
      | Some c \<Rightarrow>
          (case table_create S st (t_src (mem st table)) None c of (t, st1) \<Rightarrow>
             (case backend_config S (t_backend (mem st1 t)) (mem st1 t) (Some c) of
                (ok, t') \<Rightarrow>
                  let st2 = store_upd st1 t (\<lambda>_. t') in
                  if ok = 0 then (0, table_destroy st2 t)
                  else
                    let name = fst (strlcpy [] (t_name (mem st2 table)) (MAX_LINE_SIZE E));
                        st3 = store_upd st2 table (\<lambda>x. x\<lparr>t_name :=
                                fst (strlcpy (t_name x) (t_name (mem st2 t)) (sizeof_t_name S))\<rparr>);
                        st4 = store_upd st3 t (\<lambda>x. x\<lparr>t_name :=
                                fst (strlcpy (t_name x) name (sizeof_t_name S))\<rparr>);
                        st5 = store_upd st4 table (\<lambda>x. x\<lparr>t_id :=
                                t_id (mem st4 table) XOR t_id (mem st4 t)\<rparr>);
                        st6 = store_upd st5 t (\<lambda>x. x\<lparr>t_id :=
                                t_id (mem st5 table) XOR t_id (mem st5 t)\<rparr>);
                        st7 = store_upd st6 table (\<lambda>x. x\<lparr>t_id :=
                                t_id (mem st6 table) XOR t_id (mem st6 t)\<rparr>)
                    in (1, table_destroy st7 table))))"

subsection \<open>The decoders' contracts, in the words of the specification\<close>





text \<open>The tokens of a value split on a delimiter; an empty value has one empty token.\<close>

fun split_on :: "char \<Rightarrow> string \<Rightarrow> string list" where
  "split_on d [] = [[]]"
| "split_on d (c # cs) =
     (if c = d then [] # split_on d cs
      else (case split_on d cs of [] \<Rightarrow> [[c]] | tok # toks \<Rightarrow> (c # tok) # toks))"

text \<open>A token without its leading and trailing whitespace.\<close>

definition trim :: "string \<Rightarrow> string" where
  "trim s = rev (dropWhile isspace (rev (dropWhile isspace s)))"

text \<open>
  A token is accepted when it is not empty after trimming and the expansion-node
  parser takes it; \<open>token_node\<close> is then its node.
\<close>

definition token_ok :: "('xn, 'ex, 'na) env \<Rightarrow> string \<Rightarrow> bool" where
  "token_ok E tok = (trim tok \<noteq> [] \<and> alias_parse E (trim tok) \<noteq> None)"

definition token_node :: "('xn, 'ex, 'na) env \<Rightarrow> string \<Rightarrow> 'xn" where
  "token_node E tok = the (alias_parse E (trim tok))"

subsection \<open>A concrete environment\<close>

text \<open>
  Small capacities, a node parser that rejects tokens with an exclamation mark, an
  expansion that is the list of its nodes in insertion order, an address parser that
  rejects the empty text, and a \<^verbatim>\<open>strdup\<close> that always finds memory.
\<close>

definition example_env :: "(string, string list, string) env" where
  "example_env =
     \<lparr>MAX_LINE_SIZE = 64, sizeof_username = 64, sizeof_password = 64,
      alias_parse = (\<lambda>s. if CHR ''!'' \<in> set s then None else Some s),
      expand_zero = [],
      expand_insert = (\<lambda>ex xn. ex @ [xn]),
      text_to_netaddr = (\<lambda>s. if s = [] then None else Some s),
      strdup_null = (\<lambda>s. False)\<rparr>"

text \<open>
  A static table in which the key \<open>a\<close> occurs twice, and a db(3) store whose data
  end with a NUL; its last key has no NUL of its own and is followed by one.
\<close>

definition example_table :: "32 word table" where
  "example_table =
     \<lparr>t_name = ''aliases'', t_id = 1, t_src = ''static'', t_config = [],
      t_backend = Backend_static,
      t_contents =
        [\<lparr>me_key = ''a'', me_val = ''alice:s3cret''\<rparr>,
         \<lparr>me_key = ''b'', me_val = ''x''\<rparr>,
         \<lparr>me_key = ''a2'', me_val = ''second''\<rparr>,
         \<lparr>me_key = ''a'', me_val = ''other:pw''\<rparr>,
         \<lparr>me_key = ''bob@example.com'', me_val = ''bob@x,,carol@y''\<rparr>]\<rparr>"

definition example_db :: db where
  "example_db =
     \<lparr>db_get = (\<lambda>k. if k = ''a'' @ [CHR 0x00] then (0, ''alice:s3cret'' @ [CHR 0x00])
                     else (1, [])),
      db_seq = [\<lparr>dbk = ''a'' @ [CHR 0x00], dbk_next = CHR ''#'',
                  dbd = ''alice:s3cret'' @ [CHR 0x00]\<rparr>,
                \<lparr>dbk = ''b'' @ [CHR 0x00], dbk_next = CHR ''#'', dbd = ''x'' @ [CHR 0x00]\<rparr>,
                \<lparr>dbk = ''a2'', dbk_next = CHR 0x00, dbd = ''second'' @ [CHR 0x00]\<rparr>]\<rparr>"


text \<open>
  The construction of the transient table in \<^verbatim>\<open>table_static_update\<close>: the table is
  created from the source designator of \<open>table\<close> and configured through its backend.
  The return value of the configure call and the transient table as it leaves it.
\<close>

definition transient_config ::
  "('w::len) word sys \<Rightarrow> 'w word store \<Rightarrow> addr \<Rightarrow> string \<Rightarrow> int \<times> 'w word table" where
  "transient_config S st table c =
     (case table_create S st (t_src (mem st table)) None c of (t, st1) \<Rightarrow>
        backend_config S (t_backend (mem st1 t)) (mem st1 t) (Some c))"

text \<open>
  A system whose configuration parser takes one \<open>key value\<close> line and fails on a line
  without a space, and a memory with one table, at address 0.
\<close>

definition example_sys :: "32 word sys" where
  "example_sys =
     \<lparr>table_backend_lookup = (\<lambda>src. if src = ''db'' then Backend_db else Backend_static),
      table_config_parser =
        (\<lambda>t c. if CHR '' '' \<in> set c
               then (1, t\<lparr>t_contents := t_contents t @
                       [\<lparr>me_key = takeWhile (\<lambda>x. x \<noteq> CHR '' '') c,
                         me_val = tl (dropWhile (\<lambda>x. x \<noteq> CHR '' '') c)\<rparr>]\<rparr>)
               else (0, t)),
      sizeof_t_name = 64, fresh_addr = 1, fresh_id = 7, fresh_name = ''<dynamic:7>''\<rparr>"

definition example_store :: "32 word store" where
  "example_store = \<lparr>mem = (\<lambda>a. example_table), live = {0}\<rparr>"

section \<open>Properties\<close>

declare strip_trailing.simps [simp del]

subsection \<open>Credentials\<close>

lemma strchr_eq:
  "strchr s c = (if c \<in> set s then Some (length (takeWhile (\<lambda>x. x \<noteq> c) s)) else None)"
  by (induction s) auto







text \<open>
  The split is on the first colon: a value that starts with a colon is rejected even
  when a later colon stands inside it.
\<close>

lemma credentials_leading_colon:
  "table_static_credentials example_env ''k'' '':a:b'' (length '':a:b'') = (- 1, Unwritten)"
  by (simp add: table_static_credentials_def example_env_def)

text \<open>
  What the two lookups pass. The static lookup passes \<^verbatim>\<open>strlen(line)\<close>. The db(3)
  lookup passes the size of the stored data: for data that ends with its NUL, the text
  and one more. The byte at offset \<open>len - 1\<close> is then the NUL, so that a stored text
  that ends with its colon is decoded, with an empty password, and a text of
  \<^verbatim>\<open>MAX_LINE_SIZE - 1\<close> bytes is refused.
\<close>

lemma db_lookup_passes_size:
  assumes "length key < MAX_LINE_SIZE E" and "db_get hdl (key @ [CHR 0x00]) = (0, data)"
  shows "table_db_lookup E hdl key K_CREDENTIALS =
           Return (table_db_credentials E key (cstr data) (length data))"
  using assms by (simp add: table_db_lookup_def table_db_get_entry_def strlcpy_def)

lemma db_lookup_length_counts_terminator:
  "table_db_lookup example_env
     \<lparr>db_get = (\<lambda>k. (0, ''user:'' @ [CHR 0x00])), db_seq = []\<rparr> ''u'' K_CREDENTIALS =
   Return (1, Written (Some (R_credentials \<lparr>username = ''user'', password = []\<rparr>)))"
  by (simp add: table_db_lookup_def table_db_get_entry_def table_db_credentials_def
        strlcpy_def cstr_def example_env_def)

subsection \<open>Alias and virtual expansions\<close>

lemma split_on_strchr_None: "strchr s d = None \<Longrightarrow> split_on d s = [s]"
  by (induction s) (auto split: if_splits)

lemma split_on_strchr_Some:
  "strchr s d = Some i \<Longrightarrow> split_on d s = take i s # split_on d (drop (Suc i) s)"
  by (induction s arbitrary: i) (auto split: if_splits)

lemma strip_trailing_rev:
  "s \<noteq> [] \<Longrightarrow> \<not> isspace (hd s) \<Longrightarrow> strip_trailing s = rev (dropWhile isspace (rev s))"
proof (induction s rule: strip_trailing.induct)
  case (1 s)
  show ?case
  proof (cases "1 < length s \<and> isspace (last s)")
    case True
    then have ne: "butlast s \<noteq> []"
      by (cases s rule: rev_cases) auto
    have hd: "hd (butlast s) = hd s"
      using ne by (cases s) (auto split: if_splits)
    have "strip_trailing s = strip_trailing (butlast s)"
      using True by (simp add: strip_trailing.simps [of s])
    also have "\<dots> = rev (dropWhile isspace (rev (butlast s)))"
      using "1.IH" [OF True ne] "1.prems" hd by simp
    also have "\<dots> = rev (dropWhile isspace (rev s))"
      using True "1.prems"(1) by (cases s rule: rev_cases) auto
    finally show ?thesis .
  next
    case False
    show ?thesis
    proof (cases "isspace (last s)")
      case True
      with False have "length s \<le> 1" by simp
      with "1.prems" obtain c where "s = [c]"
        by (cases s) auto
      with "1.prems" show ?thesis by (simp add: strip_trailing.simps [of "[c]"])
    next
      case False
      with "1.prems"(1) have "dropWhile isspace (rev s) = rev s"
        by (cases s rule: rev_cases) auto
      moreover have "strip_trailing s = s"
        using False by (simp add: strip_trailing.simps [of s])
      ultimately show ?thesis by simp
    qed
  qed
qed

lemma strip_is_trim:
  "dropWhile isspace tok \<noteq> [] \<Longrightarrow> strip_trailing (dropWhile isspace tok) = trim tok"
  by (simp add: trim_def strip_trailing_rev hd_dropWhile)

lemma trim_Nil_iff: "trim tok = [] \<longleftrightarrow> dropWhile isspace tok = []"
proof (cases "dropWhile isspace tok = []")
  case True
  show ?thesis by (simp only: trim_def True rev.simps dropWhile.simps)
next
  case False
  then have "\<not> isspace (hd (dropWhile isspace tok))"
    by (simp add: hd_dropWhile)
  moreover have "hd (dropWhile isspace tok) \<in> set (rev (dropWhile isspace tok))"
    using False by simp
  ultimately have "dropWhile isspace (rev (dropWhile isspace tok)) \<noteq> []"
    unfolding dropWhile_eq_Nil_conv by blast
  then show ?thesis
    using False by (simp only: trim_def rev_is_Nil_conv)
qed

lemma static_alias_step:
  "static_alias_loop E (Some s) ex n =
     (if \<not> token_ok E (fst (strsep s CHR '','')) then None
      else static_alias_loop E (snd (strsep s CHR '',''))
             (expand_insert E ex (token_node E (fst (strsep s CHR '','')))) (Suc n))"
  by (auto simp: token_ok_def token_node_def trim_Nil_iff strip_is_trim
        simp del: static_alias_loop.simps(1) split: option.splits)

lemma static_alias_loop_tokens:
  "static_alias_loop E (Some s) ex n =
     (if \<forall>tok \<in> set (split_on CHR '','' s). token_ok E tok
      then Some (foldl (expand_insert E) ex (map (token_node E) (split_on CHR '','' s)),
                 n + length (split_on CHR '','' s))
      else None)"
proof (induction s arbitrary: ex n rule: length_induct)
  case (1 s)
  show ?case
  proof (cases "strchr s CHR '',''")
    case None
    then have "strsep s CHR '','' = (s, None)" by (simp add: strsep_def)
    then show ?thesis
      using split_on_strchr_None [OF None]
      by (simp only: static_alias_step) simp
  next
    case (Some i)
    then have sep: "strsep s CHR '','' = (take i s, Some (drop (Suc i) s))"
      by (simp add: strsep_def)
    have "length (drop (Suc i) s) < length s"
      using strchr_bound [OF Some] by simp
    with "1.IH" have IH: "\<And>ex n. static_alias_loop E (Some (drop (Suc i) s)) ex n =
        (if \<forall>tok \<in> set (split_on CHR '','' (drop (Suc i) s)). token_ok E tok
         then Some (foldl (expand_insert E) ex
                      (map (token_node E) (split_on CHR '','' (drop (Suc i) s))),
                 n + length (split_on CHR '','' (drop (Suc i) s)))
         else None)"
      by blast
    have "static_alias_loop E (Some s) ex n =
       (if \<not> token_ok E (take i s) then None
        else static_alias_loop E (Some (drop (Suc i) s))
               (expand_insert E ex (token_node E (take i s))) (Suc n))"
      by (simp only: static_alias_step [of E s] sep fst_conv snd_conv)
    then show ?thesis
      by (simp only: IH split_on_strchr_Some [OF Some]) simp
  qed
qed

lemma static_virtual_loop_eq: "static_virtual_loop E l ex n = static_alias_loop E l ex n"
  by (induction E l ex n rule: static_alias_loop.induct) (auto split: option.splits)

lemma db_alias_loop_eq: "db_alias_loop E l ex n = static_alias_loop E l ex n"
  by (induction E l ex n rule: static_alias_loop.induct) (auto split: option.splits)

lemma db_virtual_loop_eq: "db_virtual_loop E l ex n = static_alias_loop E l ex n"
  by (induction E l ex n rule: static_alias_loop.induct) (auto split: option.splits)

lemma table_db_alias_eq: "table_db_alias E key line len = table_static_alias E key line len"
  by (simp add: table_db_alias_def table_static_alias_def db_alias_loop_eq)

lemma table_db_virtual_eq: "table_db_virtual E key line len = table_static_virtual E key line len"
  by (simp add: table_db_virtual_def table_static_virtual_def db_virtual_loop_eq
        static_virtual_loop_eq)

lemma table_db_netaddr_eq: "table_db_netaddr E key line len = table_static_netaddr E key line len"
  by (simp add: table_db_netaddr_def table_static_netaddr_def)

text \<open>
  C5. The alias decoder (of the static and of the db(3) backend, which are the same
  function) splits the raw value on commas. When every token is accepted (not empty
  once trimmed of leading and trailing whitespace, and taken by the expansion-node
  parser) it returns 1 and stores an expansion into which the nodes of the trimmed
  tokens were inserted one per token, in token order, with \<open>nbnodes\<close> the number of
  tokens. When some token is not accepted it returns -1 and stores NULL: no node of
  the tokens before it is returned.
\<close>

theorem alias_decode:
  "table_static_alias E key line len =
     (if \<forall>tok \<in> set (split_on CHR '','' line). token_ok E tok
      then (1, Written (Some (R_alias (Table_alias
              (foldl (expand_insert E) (expand_zero E)
                 (map (token_node E) (split_on CHR '','' line)))
              (length (split_on CHR '','' line))))))
      else (- 1, Written None)) \<and>
   table_db_alias E key line len = table_static_alias E key line len"
  by (simp add: table_static_alias_def static_alias_loop_tokens table_db_alias_eq
        del: static_alias_loop.simps)

lemma example_tokens:
  "split_on CHR '','' ''bob@x, carol@y ,  dave@z'' = [''bob@x'', '' carol@y '', ''  dave@z'']"
  "split_on CHR '','' ''bob@x,,carol@y'' = [''bob@x'', [], ''carol@y'']"
  by simp_all

lemma example_trim:
  "trim ''bob@x'' = ''bob@x''" "trim '' carol@y '' = ''carol@y''"
  "trim ''  dave@z'' = ''dave@z''" "trim [] = []"
  by (simp_all add: trim_def isspace_def)

theorem alias_decode_witness:
  "table_static_alias example_env ''k'' ''bob@x, carol@y ,  dave@z'' 24 =
     (1, Written (Some (R_alias (Table_alias [''bob@x'', ''carol@y'', ''dave@z''] 3)))) \<and>
   table_static_alias example_env ''k'' ''bob@x,,carol@y'' 14 = (- 1, Written None)"
  using alias_decode [of example_env "''k''" "''bob@x, carol@y ,  dave@z''" 24]
    alias_decode [of example_env "''k''" "''bob@x,,carol@y''" 14]
  by (simp add: example_tokens example_trim token_ok_def token_node_def example_env_def)


subsection \<open>Lookup\<close>

lemma static_lookup_scan_None:
  "(\<forall>me \<in> set es. me_key me \<noteq> key) \<Longrightarrow> static_lookup_scan es key = None"
  by (induction es) auto

lemma static_lookup_scan_first:
  "(\<forall>e \<in> set pre. me_key e \<noteq> key) \<Longrightarrow> me_key me = key \<Longrightarrow>
   static_lookup_scan (pre @ me # post) key = Some me"
  by (induction pre) auto

lemma static_lookup_scan_None_iff:
  "static_lookup_scan es key = None \<longleftrightarrow> key \<notin> set (map me_key es)"
  by (induction es) auto

text \<open>
  A lookup in a static table with an out-pointer scans the entries in insertion
  order. When no entry has the lookup key it returns 0, not found, and stores NULL.
  Otherwise the entry that decides is the first one with that key, whatever follows
  it: its raw value is duplicated (the lookup returns -1 when \<^verbatim>\<open>strdup\<close> finds no
  memory) and the lookup returns what the decoder of the requested kind returns on the
  duplicate and its length.
\<close>

lemma lookup_first_match:
  "((\<forall>me \<in> set (t_contents m). me_key me \<noteq> key) \<longrightarrow>
      table_static_lookup E m key kind True = (0, Written None)) \<and>
   (t_contents m = pre @ me # post \<and> (\<forall>e \<in> set pre. me_key e \<noteq> key) \<and> me_key me = key \<longrightarrow>
      table_static_lookup E m key kind True =
        (if strdup_null E (me_val me) then (- 1, Unwritten)
         else case kind of
             K_ALIAS \<Rightarrow> table_static_alias E key (me_val me) (length (me_val me))
           | K_CREDENTIALS \<Rightarrow> table_static_credentials E key (me_val me) (length (me_val me))
           | K_VIRTUAL \<Rightarrow> table_static_virtual E key (me_val me) (length (me_val me))
           | K_NETADDR \<Rightarrow> table_static_netaddr E key (me_val me) (length (me_val me))
           | K_NONE \<Rightarrow> (- 1, Unwritten)))"
  by (simp add: table_static_lookup_def static_lookup_scan_None static_lookup_scan_first
        strdup_def)

lemma lookup_first_match_example:
  "table_static_lookup example_env example_table ''zoe'' K_CREDENTIALS True = (0, Written None) \<and>
   table_static_lookup example_env example_table ''a'' K_CREDENTIALS True =
     (1, Written (Some (R_credentials \<lparr>username = ''alice'', password = ''s3cret''\<rparr>)))"
proof -
  have none: "\<forall>me \<in> set (t_contents example_table). me_key me \<noteq> ''zoe''"
    by (simp add: example_table_def)
  have split: "t_contents example_table =
      [] @ \<lparr>me_key = ''a'', me_val = ''alice:s3cret''\<rparr>
      # [\<lparr>me_key = ''b'', me_val = ''x''\<rparr>, \<lparr>me_key = ''a2'', me_val = ''second''\<rparr>,
         \<lparr>me_key = ''a'', me_val = ''other:pw''\<rparr>,
         \<lparr>me_key = ''bob@example.com'', me_val = ''bob@x,,carol@y''\<rparr>]"
    by (simp add: example_table_def)
  have dec: "table_static_credentials example_env ''a'' ''alice:s3cret'' (length ''alice:s3cret'') =
     (1, Written (Some (R_credentials \<lparr>username = ''alice'', password = ''s3cret''\<rparr>)))"
    by (simp add: table_static_credentials_def example_env_def strlcpy_def)
  have nn: "\<not> strdup_null example_env ''alice:s3cret''"
    by (simp add: example_env_def)
  from lookup_first_match [where m = example_table and key = "''zoe''" and E = example_env
      and kind = K_CREDENTIALS] none
  have a: "table_static_lookup example_env example_table ''zoe'' K_CREDENTIALS True = (0, Written None)"
    by blast
  from lookup_first_match [where m = example_table and key = "''a''" and E = example_env
      and kind = K_CREDENTIALS and pre = "[]"
      and me = "\<lparr>me_key = ''a'', me_val = ''alice:s3cret''\<rparr>"
      and post = "[\<lparr>me_key = ''b'', me_val = ''x''\<rparr>, \<lparr>me_key = ''a2'', me_val = ''second''\<rparr>,
         \<lparr>me_key = ''a'', me_val = ''other:pw''\<rparr>,
         \<lparr>me_key = ''bob@example.com'', me_val = ''bob@x,,carol@y''\<rparr>]"] split nn dec
  have b: "table_static_lookup example_env example_table ''a'' K_CREDENTIALS True =
     (1, Written (Some (R_credentials \<lparr>username = ''alice'', password = ''s3cret''\<rparr>)))"
    by simp
  from a b show ?thesis by simp
qed

text \<open>
  C7. What the code does where the claim has not found distinguishable from error:
  the lookup of a key that no entry has returns 0 and stores NULL, and the lookup of a
  key whose first entry holds a value that the virtual decoder, or the
  network-address decoder, rejects returns 0 and stores NULL as well. The rest of the
  claim holds (\<open>lookup_first_match\<close>).
\<close>

theorem lookup_not_found_same_as_error:
  "''zoe@example.com'' \<notin> set (map me_key (t_contents example_table)) \<and>
   table_static_lookup example_env example_table ''zoe@example.com'' K_VIRTUAL True
     = (0, Written None) \<and>
   ''bob@example.com'' \<in> set (map me_key (t_contents example_table)) \<and>
   table_static_lookup example_env example_table ''bob@example.com'' K_VIRTUAL True
     = (0, Written None) \<and>
   ''zoe'' \<notin> set (map me_key (t_contents example_table)) \<and>
   table_static_lookup (example_env\<lparr>text_to_netaddr := \<lambda>s. None\<rparr>) example_table
     ''zoe'' K_NETADDR True = (0, Written None) \<and>
   ''b'' \<in> set (map me_key (t_contents example_table)) \<and>
   table_static_lookup (example_env\<lparr>text_to_netaddr := \<lambda>s. None\<rparr>) example_table
     ''b'' K_NETADDR True = (0, Written None)"
  by (simp add: table_static_lookup_def example_table_def example_env_def strdup_def
        table_static_virtual_def table_static_netaddr_def strsep_def)

text \<open>
  C10. A lookup in a static table with a null out-pointer returns 1 when some entry
  has the lookup key and 0 otherwise, and writes nothing. The result is the same for
  every requested kind and every environment: no decoder runs and \<^verbatim>\<open>strdup\<close> is
  not called.
\<close>

theorem lookup_null_retp:
  "table_static_lookup E m key kind False =
     (if key \<in> set (map me_key (t_contents m)) then 1 else 0, Unwritten) \<and>
   table_static_lookup E m key kind False = table_static_lookup E' m key kind' False"
  by (simp add: table_static_lookup_def static_lookup_scan_None_iff del: set_map)

theorem lookup_null_retp_witness:
  "table_static_lookup example_env example_table ''a'' K_CREDENTIALS False = (1, Unwritten) \<and>
   table_static_lookup example_env example_table ''b'' K_CREDENTIALS False = (1, Unwritten) \<and>
   table_static_lookup example_env example_table ''zoe'' K_CREDENTIALS False = (0, Unwritten)"
  using lookup_null_retp [of example_env example_table "''a''" K_CREDENTIALS, THEN conjunct1]
    lookup_null_retp [of example_env example_table "''b''" K_CREDENTIALS, THEN conjunct1]
    lookup_null_retp [of example_env example_table "''zoe''" K_CREDENTIALS, THEN conjunct1]
  by (simp add: example_table_def)

subsection \<open>Compare\<close>





text \<open>
  What a predicate on C strings reads in the copy: the stored key up to its NUL when
  it has one, and the whole stored key when it has none and the byte after it is NUL.
\<close>

lemma takeWhile_stops_at_end: "c \<notin> set xs \<Longrightarrow> takeWhile (\<lambda>x. x \<noteq> c) (xs @ [c]) = xs"
  by (induction xs) auto

lemma takeWhile_stops_inside:
  "c \<in> set xs \<Longrightarrow> takeWhile (\<lambda>x. x \<noteq> c) (xs @ ys) = takeWhile (\<lambda>x. x \<noteq> c) xs"
  by (induction xs) auto

lemma cstr_compare_buf:
  "CHR 0x00 \<in> set (dbk r) \<Longrightarrow> cstr (compare_buf r) = cstr (dbk r)"
  "CHR 0x00 \<notin> set (dbk r) \<Longrightarrow> dbk_next r = CHR 0x00 \<Longrightarrow> cstr (compare_buf r) = dbk r"
  by (simp_all add: cstr_def compare_buf_def takeWhile_stops_at_end takeWhile_stops_inside)



subsection \<open>The key buffer of the db(3) backend\<close>

text \<open>
  C9. A lookup in the db(3) backend with a key that, with its terminator, does not fit
  in \<^verbatim>\<open>MAX_LINE_SIZE\<close> bytes does not return: the process exits with status 1.
\<close>

theorem db_lookup_long_key_exits:
  "MAX_LINE_SIZE E < length key + 1 \<Longrightarrow> table_db_lookup E hdl key kind = Exit 1"
  by (simp add: table_db_lookup_def table_db_get_entry_def strlcpy_def)

lemma db_lookup_short_key_returns:
  "length key + 1 \<le> MAX_LINE_SIZE E \<Longrightarrow> \<exists>r. table_db_lookup E hdl key kind = Return r"
  by (auto simp: table_db_lookup_def table_db_get_entry_def strlcpy_def
        split: prod.splits option.splits)

theorem db_lookup_long_key_exits_witness:
  "MAX_LINE_SIZE example_env < length (replicate 64 CHR ''k'') + 1 \<and>
   table_db_lookup example_env example_db (replicate 64 CHR ''k'') K_CREDENTIALS = Exit 1"
proof -
  have long: "MAX_LINE_SIZE example_env < length (replicate 64 CHR ''k'') + 1"
    by (simp add: example_env_def)
  from db_lookup_long_key_exits [OF long] long show ?thesis by simp
qed

subsection \<open>Return codes of the virtual and network-address decoders\<close>

lemma virtual_domain_key:
  "CHR ''@'' \<notin> set key \<Longrightarrow> table_static_virtual E key line len = (1, Written None)"
  by (simp add: table_static_virtual_def strchr_eq)

lemma virtual_user_key:
  "CHR ''@'' \<in> set key \<Longrightarrow>
   table_static_virtual E key line len =
     (if \<forall>tok \<in> set (split_on CHR '','' line). token_ok E tok
      then (1, Written (Some (R_virtual (Table_virtual
              (foldl (expand_insert E) (expand_zero E)
                 (map (token_node E) (split_on CHR '','' line)))
              (length (split_on CHR '','' line))))))
      else (0, Written None))"
  by (simp add: table_static_virtual_def strchr_eq static_virtual_loop_eq
        static_alias_loop_tokens del: static_alias_loop.simps static_virtual_loop.simps)

text \<open>
  In every static table, a value that the virtual decoder rejects under a user key
  gives the lookup the result of a key that the table does not have.
\<close>

lemma lookup_virtual_error_is_not_found:
  assumes "t_contents m = pre @ me # post" and "\<forall>e \<in> set pre. me_key e \<noteq> key"
    and "me_key me = key" and "\<not> strdup_null E (me_val me)"
    and "CHR ''@'' \<in> set key"
    and "\<not> (\<forall>tok \<in> set (split_on CHR '','' (me_val me)). token_ok E tok)"
    and "\<forall>e \<in> set (t_contents m). me_key e \<noteq> key'"
  shows "table_static_lookup E m key K_VIRTUAL True = (0, Written None)"
    and "table_static_lookup E m key' K_VIRTUAL True = (0, Written None)"
proof -
  from lookup_first_match [where m = m and key = key and E = E and kind = K_VIRTUAL
      and pre = pre and me = me and post = post] assms(1-4)
  have "table_static_lookup E m key K_VIRTUAL True =
          table_static_virtual E key (me_val me) (length (me_val me))"
    by simp
  also have "\<dots> = (0, Written None)"
    using assms(6) by (simp only: virtual_user_key [OF assms(5)] if_False)
  finally show "table_static_lookup E m key K_VIRTUAL True = (0, Written None)" .
  from lookup_first_match [where m = m and key = key' and E = E and kind = K_VIRTUAL] assms(7)
  show "table_static_lookup E m key' K_VIRTUAL True = (0, Written None)"
    by blast
qed

lemma netaddr_cases:
  "table_static_netaddr E key line len =
     (case text_to_netaddr E line of
        None \<Rightarrow> (0, Written None)
      | Some a \<Rightarrow> (1, Written (Some (R_netaddr (Table_netaddr a)))))"
  by (simp add: table_static_netaddr_def)

text \<open>
  C3. What the code does on a malformed value of a virtual or network-address entry:
  the decoder returns 0 and stores NULL, which is what the lookup of a key that the
  table does not have returns. The alias decoder returns -1 on the same value. The
  virtual and network-address decoders of the db(3) backend return 0 as well.
\<close>

theorem decode_error_reads_as_not_found:
  "table_static_lookup example_env example_table ''bob@example.com'' K_VIRTUAL True
     = (0, Written None) \<and>
   table_static_lookup example_env example_table ''zoe@example.com'' K_VIRTUAL True
     = (0, Written None) \<and>
   table_static_lookup example_env example_table ''bob@example.com'' K_ALIAS True
     = (- 1, Written None) \<and>
   table_static_netaddr example_env ''k'' [] 0 = (0, Written None) \<and>
   table_db_virtual example_env ''bob@example.com'' ''bob@x,,carol@y'' 14 = (0, Written None) \<and>
   table_db_netaddr example_env ''k'' [] 0 = (0, Written None)"
  by code_simp

text \<open>
  C6. What the code does on a user key and a value with an empty token: the virtual
  decoder returns 0 where the alias decoder returns -1. On a key without \<open>@\<close>, and
  on a value whose tokens are all accepted, the virtual decoder does what the claim
  says (\<open>virtual_domain_key\<close>, \<open>virtual_user_key\<close>).
\<close>

theorem virtual_error_differs_from_alias:
  "table_static_virtual example_env ''bob@example.com'' ''bob@x,,carol@y'' 14
     = (0, Written None) \<and>
   table_static_alias example_env ''bob@example.com'' ''bob@x,,carol@y'' 14
     = (- 1, Written None)"
  by code_simp


subsection \<open>Update\<close>

lemma xor_swap:
  fixes x y :: "'a::len word"
  shows "(x XOR y) XOR y = x" "(x XOR y) XOR x = y"
  by (simp_all add: ac_simps)

lemma update_failure:
  assumes "transient_config S st table c = (0, t')"
  shows "table_static_update E S st table (Some c) =
           (0, \<lparr>mem = (mem st)(fresh_addr S := t'), live = live st - {fresh_addr S}\<rparr>)"
  using assms
  by (simp add: table_static_update_def transient_config_def table_create_def
        table_destroy_def store_upd_def)

text \<open>
  C1. When the construction of the transient table fails (the configure call on the
  created table returns 0), \<^verbatim>\<open>table_static_update\<close> returns 0 and the table it was
  called on is as before: the same name, id and entries, at an address that is still
  allocated. The transient table is destroyed.
\<close>

theorem update_failure_leaves_table:
  assumes "table \<in> live st" and "fresh_addr S \<notin> live st"
    and "fst (transient_config S st table c) = 0"
  shows "fst (table_static_update E S st table (Some c)) = 0 \<and>
         mem (snd (table_static_update E S st table (Some c))) table = mem st table \<and>
         live (snd (table_static_update E S st table (Some c))) = live st"
proof -
  from assms(1,2) have ne: "table \<noteq> fresh_addr S" by blast
  from assms(3) obtain t' where "transient_config S st table c = (0, t')"
    by (cases "transient_config S st table c") auto
  from update_failure [OF this, where E = E] ne assms(2) show ?thesis
    by simp
qed

theorem update_failure_leaves_table_witness:
  "0 \<in> live example_store \<and> fresh_addr example_sys \<notin> live example_store \<and>
   fst (transient_config example_sys example_store 0 ''unparsable'') = 0 \<and>
   fst (table_static_update example_env example_sys example_store 0 (Some ''unparsable'')) = 0 \<and>
   mem (snd (table_static_update example_env example_sys example_store 0 (Some ''unparsable''))) 0
     = example_table \<and>
   live (snd (table_static_update example_env example_sys example_store 0 (Some ''unparsable'')))
     = {0}"
proof -
  have a: "(0::nat) \<in> live example_store"
    by (simp add: example_store_def)
  have b: "fresh_addr example_sys \<notin> live example_store"
    by (simp add: example_store_def example_sys_def)
  have c: "fst (transient_config example_sys example_store 0 ''unparsable'') = 0"
    by (simp add: transient_config_def table_create_def backend_config_def
          table_static_config_def example_sys_def example_store_def example_table_def)
  from update_failure_leaves_table [OF a b c, of example_env] a b c show ?thesis
    by (simp add: example_store_def)
qed

lemma update_success:
  assumes "table \<noteq> fresh_addr S"
    and "transient_config S st table c = (ok, t')" and "ok \<noteq> 0"
    and "length (t_name (mem st table)) < MAX_LINE_SIZE E"
    and "length (t_name (mem st table)) < sizeof_t_name S"
    and "length (t_name t') < sizeof_t_name S"
  shows "table_static_update E S st table (Some c) =
           (1, \<lparr>mem = (mem st)
                   (fresh_addr S := t'\<lparr>t_name := t_name (mem st table), t_id := t_id (mem st table)\<rparr>,
                    table := (mem st table)\<lparr>t_name := t_name t', t_id := t_id t'\<rparr>),
                live = insert (fresh_addr S) (live st) - {table}\<rparr>)"
  using assms
  by (simp add: table_static_update_def transient_config_def table_create_def
        table_destroy_def store_upd_def Let_def strlcpy_def xor_swap)

text \<open>
  C2, as amended. When the construction of the transient table succeeds,
  \<^verbatim>\<open>table_static_update\<close> returns 1. The names and the ids of the two tables have
  been exchanged. The table that is destroyed is the one the update was called on: it
  kept its old entries and now carries the identity of the transient table, and its
  address is no longer allocated. The transient table stays allocated at its own
  address, with the entries the configuration gave it, under the former name and id
  of the table the update was called on.
\<close>

theorem update_success_swaps_and_destroys_former:
  assumes "table \<in> live st" and "fresh_addr S \<notin> live st"
    and "transient_config S st table c = (ok, t')" and "ok \<noteq> 0"
    and "length (t_name (mem st table)) < MAX_LINE_SIZE E"
    and "length (t_name (mem st table)) < sizeof_t_name S"
    and "length (t_name t') < sizeof_t_name S"
  shows "fst (table_static_update E S st table (Some c)) = 1 \<and>
         mem (snd (table_static_update E S st table (Some c))) table =
           (mem st table)\<lparr>t_name := t_name t', t_id := t_id t'\<rparr> \<and>
         mem (snd (table_static_update E S st table (Some c))) (fresh_addr S) =
           t'\<lparr>t_name := t_name (mem st table), t_id := t_id (mem st table)\<rparr> \<and>
         live (snd (table_static_update E S st table (Some c))) =
           insert (fresh_addr S) (live st) - {table}"
proof -
  from assms(1,2) have ne: "table \<noteq> fresh_addr S" by blast
  show ?thesis
    using ne by (simp add: update_success [OF ne assms(3-7)])
qed

theorem update_success_swaps_and_destroys_former_witness:
  "0 \<in> live example_store \<and> fresh_addr example_sys \<notin> live example_store \<and>
   fst (transient_config example_sys example_store 0 ''k2 v2'') = 1 \<and>
   fst (table_static_update example_env example_sys example_store 0 (Some ''k2 v2'')) = 1 \<and>
   mem (snd (table_static_update example_env example_sys example_store 0 (Some ''k2 v2''))) 0 =
     example_table\<lparr>t_name := ''<dynamic:7>'', t_id := 7\<rparr> \<and>
   mem (snd (table_static_update example_env example_sys example_store 0 (Some ''k2 v2''))) 1 =
     \<lparr>t_name = ''aliases'', t_id = 1, t_src = ''static'', t_config = ''k2 v2'',
      t_backend = Backend_static,
      t_contents = [\<lparr>me_key = ''k2'', me_val = ''v2''\<rparr>]\<rparr> \<and>
   live (snd (table_static_update example_env example_sys example_store 0 (Some ''k2 v2''))) = {1}"
proof -
  let ?t' = "\<lparr>t_name = ''<dynamic:7>'', t_id = 7 :: 32 word, t_src = ''static'',
          t_config = ''k2 v2'', t_backend = Backend_static,
          t_contents = [\<lparr>me_key = ''k2'', me_val = ''v2''\<rparr>]\<rparr>"
  have a: "(0::nat) \<in> live example_store"
    by (simp add: example_store_def)
  have b: "fresh_addr example_sys \<notin> live example_store"
    by (simp add: example_store_def example_sys_def)
  have c: "transient_config example_sys example_store 0 ''k2 v2'' = (1, ?t')"
    by (simp add: transient_config_def table_create_def backend_config_def
          table_static_config_def example_sys_def example_store_def example_table_def)
  have d: "(1::int) \<noteq> 0" by simp
  have e: "length (t_name (mem example_store 0)) < MAX_LINE_SIZE example_env"
    by (simp add: example_store_def example_table_def example_env_def)
  have f: "length (t_name (mem example_store 0)) < sizeof_t_name example_sys"
    by (simp add: example_store_def example_table_def example_sys_def)
  have g: "length (t_name ?t') < sizeof_t_name example_sys"
    by (simp add: example_sys_def)
  note r = update_success_swaps_and_destroys_former [OF a b c d e f g]
  have m0: "mem example_store 0 = example_table"
    by (simp add: example_store_def)
  have fa: "fresh_addr example_sys = 1"
    by (simp add: example_sys_def)
  have lv: "insert (fresh_addr example_sys) (live example_store) - {0} = {1}"
    by (auto simp: example_sys_def example_store_def)
  have r1: "fst (table_static_update example_env example_sys example_store 0 (Some ''k2 v2'')) = 1"
    using r by blast
  have r2: "mem (snd (table_static_update example_env example_sys example_store 0
                    (Some ''k2 v2''))) 0 = example_table\<lparr>t_name := ''<dynamic:7>'', t_id := 7\<rparr>"
    using r [THEN conjunct2, THEN conjunct1] by (simp add: m0)
  have r3: "mem (snd (table_static_update example_env example_sys example_store 0
                    (Some ''k2 v2''))) 1 =
     \<lparr>t_name = ''aliases'', t_id = 1, t_src = ''static'', t_config = ''k2 v2'',
      t_backend = Backend_static,
      t_contents = [\<lparr>me_key = ''k2'', me_val = ''v2''\<rparr>]\<rparr>"
    using r [THEN conjunct2, THEN conjunct2, THEN conjunct1]
    by (simp add: m0 fa example_table_def)
  have r4: "live (snd (table_static_update example_env example_sys example_store 0
                    (Some ''k2 v2''))) = {1}"
    using r [THEN conjunct2, THEN conjunct2, THEN conjunct2] by (simp only: lv)
  have c': "fst (transient_config example_sys example_store 0 ''k2 v2'') = 1"
    by (simp only: c fst_conv)
  from a b c' r1 r2 r3 r4 show ?thesis
    by blast
qed

text \<open>
  C2, as stated, fails: after a successful update of the table at address 0, address 0
  is not allocated any more and the memory there still has the old entries; the new
  entries are in the table at address 1.
\<close>

theorem update_success_frees_table:
  "0 \<in> live example_store \<and>
   fst (table_static_update example_env example_sys example_store 0 (Some ''k2 v2'')) = 1 \<and>
   0 \<notin> live (snd (table_static_update example_env example_sys example_store 0 (Some ''k2 v2''))) \<and>
   1 \<in> live (snd (table_static_update example_env example_sys example_store 0 (Some ''k2 v2''))) \<and>
   t_contents (mem (snd (table_static_update example_env example_sys example_store 0
                     (Some ''k2 v2''))) 0) = t_contents example_table \<and>
   t_contents (mem (snd (table_static_update example_env example_sys example_store 0
                     (Some ''k2 v2''))) 1) = [\<lparr>me_key = ''k2'', me_val = ''v2''\<rparr>]"
  by (simp add: table_static_update_def table_create_def table_destroy_def store_upd_def
        backend_config_def table_static_config_def strlcpy_def
        example_sys_def example_store_def example_table_def example_env_def)


end
